theory Spec2Isabelle
  imports Main "HOL-Library.Word"
begin

section \<open>Primitive types of the engine\<close>

text \<open>
  The reflection header works on the engine's fixed-width integers. Floats are only ever
  stored and copied by this layer, never computed with, so a float is its IEEE bit pattern.
  An entity handle (\<open>EntityRef\<close>, \<open>EntityPtr\<close>) is a struct holding one \<open>i32\<close> index;
  the cast \<open>(EntityRef)cmp.entity\<close> keeps the index.
\<close>

type_synonym u8 = "8 word"
type_synonym i32 = "32 word"
type_synonym u32 = "32 word"
type_synonym float = "32 word"
type_synonym double = "64 word"
type_synonym EntityPtr = i32
type_synonym EntityRef = i32
type_synonym ComponentType = i32

text \<open>
  \<open>ComponentUID\<close> (engine/component_uid.h): the module pointer, the entity and the type;
  the field \<open>type\<close> is \<open>cmp_type\<close> here. \<open>'m\<close> is the type of the module's state.
\<close>

record 'm ComponentUID =
  module :: 'm
  entity :: EntityPtr
  cmp_type :: ComponentType

text \<open>What a call through a null function pointer or on a null object pointer is.\<close>

datatype fault = NullCall | NullDeref

section \<open>Attributes\<close>

datatype IAttribute_Type =
  IAttribute_MIN | IAttribute_CLAMP | IAttribute_RADIANS | IAttribute_COLOR | IAttribute_RESOURCE |
  IAttribute_ENUM | IAttribute_MULTILINE | IAttribute_STRING_ENUM | IAttribute_NO_UI

text \<open>
  \<open>IAttribute\<close> is an interface with the virtual \<open>getType\<close>. The header declares six
  implementations, each with its fields; \<open>EnumAttribute\<close> and \<open>StringEnumAttribute\<close>
  are themselves abstract and carry what the registering module implements, \<open>count\<close> and
  \<open>name\<close>. \<open>'rt\<close> is \<open>ResourceType\<close>.
\<close>

datatype ('m, 'rt) IAttribute =
    ResourceAttribute 'rt
  | MinAttribute float
  | ClampAttribute float float
  | ColorAttribute
  | EnumAttribute "'m ComponentUID \<Rightarrow> u32" "'m ComponentUID \<Rightarrow> u32 \<Rightarrow> string"
  | StringEnumAttribute "'m ComponentUID \<Rightarrow> u32" "'m ComponentUID \<Rightarrow> u32 \<Rightarrow> string"

fun getType :: "('m, 'rt) IAttribute \<Rightarrow> IAttribute_Type" where
  "getType (ResourceAttribute _) = IAttribute_RESOURCE"
| "getType (MinAttribute _) = IAttribute_MIN"
| "getType (ClampAttribute _ _) = IAttribute_CLAMP"
| "getType ColorAttribute = IAttribute_COLOR"
| "getType (EnumAttribute _ _) = IAttribute_ENUM"
| "getType (StringEnumAttribute _ _) = IAttribute_STRING_ENUM"

section \<open>Properties\<close>

text \<open>
  \<open>PropertyBase\<close> carries the name and the attribute array; the back pointer \<open>cmp\<close> to the
  owning component is set by \<open>builder::addProp\<close> and read by none of the functions below.
  The attribute type \<open>'a\<close> stands for \<open>IAttribute*\<close>: any implementation of the interface.
\<close>

record 'a PropertyBase_fields =
  name :: string
  attributes :: "'a list"

text \<open>
  \<open>Property<T>\<close>: the setter and the getter are raw function pointers. A setter runs a
  method of the module, so it returns the module's new state; a getter reads the module.
\<close>

record ('m, 'v, 'a) Property = "'a PropertyBase_fields" +
  setter :: "('m \<Rightarrow> EntityRef \<Rightarrow> u32 \<Rightarrow> 'v \<Rightarrow> 'm) option"
  getter :: "'m \<Rightarrow> EntityRef \<Rightarrow> u32 \<Rightarrow> 'v"

record ('m, 'a) ArrayProperty_fields = "'a PropertyBase_fields" +
  counter :: "'m \<Rightarrow> EntityRef \<Rightarrow> u32"
  adder :: "'m \<Rightarrow> EntityRef \<Rightarrow> u32 \<Rightarrow> 'm"
  remover :: "'m \<Rightarrow> EntityRef \<Rightarrow> u32 \<Rightarrow> 'm"

record ('m, 'a) BlobProperty_fields = "'a PropertyBase_fields" +
  blob_getter :: "'m \<Rightarrow> EntityRef \<Rightarrow> u32 \<Rightarrow> u8 list \<Rightarrow> u8 list"
  blob_setter :: "'m \<Rightarrow> EntityRef \<Rightarrow> u32 \<Rightarrow> u8 list \<Rightarrow> 'm"

text \<open>The value types \<open>T\<close> for which \<open>IPropertyVisitor\<close> declares \<open>visit(const Property<T>&)\<close>.\<close>

datatype PropType =
  P_float | P_int | P_u32 | P_EntityPtr | P_Vec2 | P_Vec3 | P_IVec3 | P_Vec4 | P_Path | P_bool | P_cstr

text \<open>
  A \<open>PropertyBase*\<close> points at one of the concrete classes: a \<open>Property<T>\<close> (the tag says
  which \<open>T\<close>; \<open>'v\<close> is the type of the values that travel through getters and setters),
  an \<open>ArrayProperty\<close> with its \<open>children\<close>, or a \<open>BlobProperty\<close>.
\<close>

datatype ('m, 'v, 'a) PropertyBase =
    PropertyT PropType "('m, 'v, 'a) Property"
  | ArrayProperty "('m, 'a) ArrayProperty_fields" "('m, 'v, 'a) PropertyBase list"
  | BlobProperty "('m, 'a) BlobProperty_fields"

fun children :: "('m, 'v, 'a) PropertyBase \<Rightarrow> ('m, 'v, 'a) PropertyBase list" where
  "children (ArrayProperty _ cs) = cs"
| "children _ = []"

fun is_array :: "('m, 'v, 'a) PropertyBase \<Rightarrow> bool" where
  "is_array (ArrayProperty _ _) = True"
| "is_array _ = False"

text \<open>
  \<open>Property<T>::get\<close>, \<open>set\<close> and \<open>isReadonly\<close>. Every construction path of the header
  (\<open>builder::prop\<close>, \<open>builder::var_prop\<close>) assigns the getter, so the getter is a function.
  The setter is a raw function pointer that \<open>builder::prop\<close> leaves \<open>nullptr\<close> when no
  setter is given. \<open>set\<close> does not test the pointer before the call: calling through
  \<open>nullptr\<close> is the fault \<open>NullCall\<close>. \<open>set\<close> returns the module after the setter ran.
\<close>

definition Property_get :: "('m, 'v, 'a) Property \<Rightarrow> 'm ComponentUID \<Rightarrow> u32 \<Rightarrow> 'v" where
  "Property_get prop cmp idx = getter prop (module cmp) (entity cmp) idx"

definition Property_set ::
  "('m, 'v, 'a) Property \<Rightarrow> 'm ComponentUID \<Rightarrow> u32 \<Rightarrow> 'v \<Rightarrow> fault + 'm" where
  "Property_set prop cmp idx val =
     (case setter prop of
        None \<Rightarrow> Inl NullCall
      | Some s \<Rightarrow> Inr (s (module cmp) (entity cmp) idx val))"

definition isReadonly :: "('m, 'v, 'a) Property \<Rightarrow> bool" where
  "isReadonly prop = (setter prop = None)"

text \<open>
  \<open>getAttribute\<close>: the range-for over \<open>prop.attributes\<close> returns at the first attribute
  whose virtual \<open>getType()\<close> is the requested kind, and \<open>nullptr\<close> after the loop.
\<close>

fun getAttribute_loop :: "('a \<Rightarrow> IAttribute_Type) \<Rightarrow> 'a list \<Rightarrow> IAttribute_Type \<Rightarrow> 'a option" where
  "getAttribute_loop gt [] ty = None"
| "getAttribute_loop gt (attr # rest) ty =
     (if gt attr = ty then Some attr else getAttribute_loop gt rest ty)"

definition getAttribute ::
  "('a \<Rightarrow> IAttribute_Type) \<Rightarrow> ('m, 'v, 'a) Property \<Rightarrow> IAttribute_Type \<Rightarrow> 'a option" where
  "getAttribute gt prop ty = getAttribute_loop gt (attributes prop) ty"

section \<open>Components and the property visitors\<close>

text \<open>
  \<open>ComponentBase\<close>. Its \<open>name\<close> is the field \<open>cmp_name\<close> here (\<open>PropertyBase\<close> has a
  \<open>name\<close> too) and its \<open>functions\<close> the field \<open>cmp_functions\<close>. \<open>'fn\<close> stands for
  \<open>FunctionBase*\<close>.
\<close>

record ('m, 'v, 'a, 'fn) ComponentBase =
  icon :: string
  cmp_name :: string
  label :: string
  creator :: "'m \<Rightarrow> EntityRef \<Rightarrow> 'm"
  destroyer :: "'m \<Rightarrow> EntityRef \<Rightarrow> 'm"
  component_type :: ComponentType
  props :: "('m, 'v, 'a) PropertyBase list"
  cmp_functions :: "'fn list"

text \<open>
  Modelled from the spec: \<open>ArrayProperty::visitChildren\<close>, whose body is in reflection.cpp,
  not among the sources. The spec has the walker recurse into the children of an array, the
  children being an ordered sequence: each child's \<open>visit\<close> is called in that order.
\<close>

abbreviation visitChildren :: "('p \<Rightarrow> 'st \<Rightarrow> 'st) \<Rightarrow> 'p list \<Rightarrow> 'st \<Rightarrow> 'st" where
  "visitChildren visitor cs st \<equiv> fold visitor cs st"

text \<open>
  Modelled from the spec: \<open>ComponentBase::visit\<close>, whose body is in reflection.cpp, not among
  the sources. The spec has a component own an ordered sequence of properties that callers
  visit through \<open>IPropertyVisitor\<close>: each property's \<open>visit\<close> is called in that order.
  \<open>PropertyBase::visit\<close> is the double dispatch to the visitor's overload for the concrete
  class, so a visitor is a function on \<open>PropertyBase\<close> with one case per overload.
\<close>

definition ComponentBase_visit ::
  "(('m, 'v, 'a) PropertyBase \<Rightarrow> 'st \<Rightarrow> 'st) \<Rightarrow> ('m, 'v, 'a, 'fn) ComponentBase \<Rightarrow> 'st \<Rightarrow> 'st" where
  "ComponentBase_visit visitor cmp st = fold visitor (props cmp) st"

text \<open>
  The \<open>Helper\<close> visitor of \<open>forEachProperty\<close>. Its state is the field \<open>parent\<close> and
  whatever the callable \<open>f\<close> touches (\<open>'s\<close>): \<open>f\<close> is a state transformer that gets the
  property and the parent. Every overload calls \<open>f(prop, parent)\<close>; the one for
  \<open>ArrayProperty\<close> then sets \<open>parent\<close> to the array, visits the children with the same
  visitor and sets \<open>parent\<close> to \<open>nullptr\<close>.
\<close>

fun Helper_visit ::
  "(('m, 'v, 'a) PropertyBase \<Rightarrow> ('m, 'v, 'a) PropertyBase option \<Rightarrow> 's \<Rightarrow> 's) \<Rightarrow>
   ('m, 'v, 'a) PropertyBase \<Rightarrow> ('m, 'v, 'a) PropertyBase option \<times> 's \<Rightarrow>
   ('m, 'v, 'a) PropertyBase option \<times> 's" where
  "Helper_visit f (ArrayProperty a cs) (parent, s) =
     (let s1 = f (ArrayProperty a cs) parent s;
          st2 = visitChildren (Helper_visit f) cs (Some (ArrayProperty a cs), s1)
      in (None, snd st2))"
| "Helper_visit f (PropertyT t p) (parent, s) = (parent, f (PropertyT t p) parent s)"
| "Helper_visit f (BlobProperty b) (parent, s) = (parent, f (BlobProperty b) parent s)"

text \<open>
  \<open>forEachProperty\<close>. \<open>getComponent\<close> is declared in the header and defined elsewhere; it
  is the parameter \<open>getComponent\<close>, \<open>None\<close> being the null pointer.
\<close>

definition forEachProperty ::
  "(ComponentType \<Rightarrow> ('m, 'v, 'a, 'fn) ComponentBase option) \<Rightarrow> ComponentType \<Rightarrow>
   (('m, 'v, 'a) PropertyBase \<Rightarrow> ('m, 'v, 'a) PropertyBase option \<Rightarrow> 's \<Rightarrow> 's) \<Rightarrow> 's \<Rightarrow> 's" where
  "forEachProperty getComponent ty f s =
     (case getComponent ty of
        None \<Rightarrow> s
      | Some cmp \<Rightarrow> snd (ComponentBase_visit (Helper_visit f) cmp (None, s)))"

text \<open>
  The calls the spec promises, in order: one per top-level property with no parent, and
  after an array one per child with that array as the parent.
\<close>

definition expected_calls ::
  "('m, 'v, 'a, 'fn) ComponentBase \<Rightarrow>
   (('m, 'v, 'a) PropertyBase \<times> ('m, 'v, 'a) PropertyBase option) list" where
  "expected_calls cmp =
     concat (map (\<lambda>p. (p, None) # map (\<lambda>c. (c, Some p)) (children p)) (props cmp))"

text \<open>
  No array inside an array: \<open>builder::begin_array\<close> always pushes onto the component's own
  \<open>props\<close>, so a registered array is never the child of another.
\<close>

definition flat :: "('m, 'v, 'a, 'fn) ComponentBase \<Rightarrow> bool" where
  "flat cmp = (\<forall>p \<in> set (props cmp). \<forall>c \<in> set (children p). \<not> is_array c)"

text \<open>
  \<open>getPropertyValue<T>\<close>. The local visitor derives from \<open>IEmptyPropertyVisitor\<close> and
  overrides the overload for \<open>Property<T>\<close> alone: a property of another value type, an
  array (whose children are therefore not visited) and a blob leave it as it is.
  \<open>equalStrings\<close> (core/string.h) compares the two C strings. The visitor's state is
  \<open>found\<close> and \<open>value\<close>; \<open>prop.get(cmp, -1)\<close> passes \<open>-1\<close> as a \<open>u32\<close>.
\<close>

fun getPropertyValue_visit ::
  "PropType \<Rightarrow> string \<Rightarrow> 'm ComponentUID \<Rightarrow> ('m, 'v, 'a) PropertyBase \<Rightarrow> bool \<times> 'v \<Rightarrow> bool \<times> 'v" where
  "getPropertyValue_visit T prop_name cmp (PropertyT t prop) (found, val) =
     (if t = T \<and> name prop = prop_name then (True, Property_get prop cmp (- 1))
      else (found, val))"
| "getPropertyValue_visit T prop_name cmp (ArrayProperty a cs) st = st"
| "getPropertyValue_visit T prop_name cmp (BlobProperty b) st = st"

text \<open>
  \<open>value = {}\<close> is the parameter \<open>zero\<close>. The pointer that \<open>getComponent\<close> returns is
  dereferenced without a test: \<open>cmp_desc->visit(visitor)\<close> on the null pointer is the fault
  \<open>NullDeref\<close>. The result is the returned \<open>found\<close> and the value written to \<open>out\<close>.
\<close>

definition getPropertyValue ::
  "(ComponentType \<Rightarrow> ('m, 'v, 'a, 'fn) ComponentBase option) \<Rightarrow> 'v \<Rightarrow> PropType \<Rightarrow>
   'm \<Rightarrow> EntityRef \<Rightarrow> ComponentType \<Rightarrow> string \<Rightarrow> fault + bool \<times> 'v" where
  "getPropertyValue getComponent zero T m e ty prop_name =
     (let cmp = \<lparr>module = m, entity = e, cmp_type = ty\<rparr> in
      case getComponent ty of
        None \<Rightarrow> Inl NullDeref
      | Some cmp_desc \<Rightarrow>
          Inr (ComponentBase_visit (getPropertyValue_visit T prop_name cmp) cmp_desc (False, zero)))"

section \<open>Variant\<close>

type_synonym Vec2 = "float \<times> float"
type_synonym Vec3 = "float \<times> float \<times> float"
type_synonym Vec4 = "float \<times> float \<times> float \<times> float"
type_synonym DVec3 = "double \<times> double \<times> double"
type_synonym Color = "u8 \<times> u8 \<times> u8 \<times> u8"
type_synonym Quat = "float \<times> float \<times> float \<times> float"

datatype Variant_Type =
  VOID | PTR | BOOL | I32 | U32 | FLOAT | CSTR | ENTITY | VEC2 | VEC3 | VEC4 | DVEC3 | COLOR | QUAT

text \<open>
  The anonymous union of \<open>Variant\<close>: the value is the member written last, under that
  member's name (\<open>m_b\<close> for the member \<open>b\<close>, and so on). \<open>'p\<close> is the type of pointers
  (\<open>const char*\<close>, \<open>void*\<close>).
\<close>

datatype 'p Variant_union =
    m_b bool | m_i i32 | m_u u32 | m_f float | m_s 'p | m_e EntityPtr | m_v2 Vec2 | m_v3 Vec3 | m_v4 Vec4
  | m_dv3 DVec3 | m_ptr 'p | m_color Color | m_quat Quat

record 'p Variant =
  type :: Variant_Type
  member :: "'p Variant_union"

text \<open>The constructor: \<open>Variant() { type = I32; i = 0; }\<close>.\<close>

definition Variant_init :: "'p Variant" where
  "Variant_init = \<lparr>type = I32, member = m_i 0\<rparr>"

text \<open>
  The values the fourteen overloads of \<open>operator =\<close> accept, one constructor per overload
  in the order of the header. \<open>Path\<close> is only forward declared there: \<open>'path\<close> is its type
  and \<open>c_str\<close>, a parameter of the assignment, its member function.
\<close>

datatype ('p, 'path) cvalue =
    val_bool bool | val_i32 i32 | val_u32 u32 | val_float float | val_Path 'path | val_cstr 'p
  | val_EntityPtr EntityPtr | val_Vec2 Vec2 | val_Vec3 Vec3 | val_Vec4 Vec4 | val_DVec3 DVec3
  | val_ptr 'p | val_Color Color | val_Quat Quat

fun assign :: "('path \<Rightarrow> 'p) \<Rightarrow> 'p Variant \<Rightarrow> ('p, 'path) cvalue \<Rightarrow> 'p Variant" where
  "assign c_str var (val_bool v) = var\<lparr>member := m_b v, type := BOOL\<rparr>"
| "assign c_str var (val_i32 v) = var\<lparr>member := m_i v, type := I32\<rparr>"
| "assign c_str var (val_u32 v) = var\<lparr>member := m_u v, type := U32\<rparr>"
| "assign c_str var (val_float v) = var\<lparr>member := m_f v, type := FLOAT\<rparr>"
| "assign c_str var (val_Path v) = var\<lparr>member := m_s (c_str v), type := CSTR\<rparr>"
| "assign c_str var (val_cstr v) = var\<lparr>member := m_s v, type := CSTR\<rparr>"
| "assign c_str var (val_EntityPtr v) = var\<lparr>member := m_e v, type := ENTITY\<rparr>"
| "assign c_str var (val_Vec2 v) = var\<lparr>member := m_v2 v, type := VEC2\<rparr>"
| "assign c_str var (val_Vec3 v) = var\<lparr>member := m_v3 v, type := VEC3\<rparr>"
| "assign c_str var (val_Vec4 v) = var\<lparr>member := m_v4 v, type := VEC4\<rparr>"
| "assign c_str var (val_DVec3 v) = var\<lparr>member := m_dv3 v, type := DVEC3\<rparr>"
| "assign c_str var (val_ptr v) = var\<lparr>member := m_ptr v, type := PTR\<rparr>"
| "assign c_str var (val_Color c) = var\<lparr>member := m_color c, type := COLOR\<rparr>"
| "assign c_str var (val_Quat q) = var\<lparr>member := m_quat q, type := QUAT\<rparr>"

text \<open>
  Reading the union member that a tag names, as the \<open>fromVariant\<close> overloads pair them
  (\<open>bool\<close> with \<open>b\<close>, \<open>const char*\<close> with \<open>s\<close>, \<open>void*\<close> with \<open>ptr\<close>, ...). The result is
  the C++ value read, of the member's type; reading a member other than the one written last
  has no defined value (\<open>None\<close>), and \<open>VOID\<close> names no member.
\<close>

fun read_tagged :: "'p Variant \<Rightarrow> ('p, 'path) cvalue option" where
  "read_tagged var =
     (case (type var, member var) of
        (BOOL, m_b v) \<Rightarrow> Some (val_bool v)
      | (I32, m_i v) \<Rightarrow> Some (val_i32 v)
      | (U32, m_u v) \<Rightarrow> Some (val_u32 v)
      | (FLOAT, m_f v) \<Rightarrow> Some (val_float v)
      | (CSTR, m_s v) \<Rightarrow> Some (val_cstr v)
      | (ENTITY, m_e v) \<Rightarrow> Some (val_EntityPtr v)
      | (VEC2, m_v2 v) \<Rightarrow> Some (val_Vec2 v)
      | (VEC3, m_v3 v) \<Rightarrow> Some (val_Vec3 v)
      | (VEC4, m_v4 v) \<Rightarrow> Some (val_Vec4 v)
      | (DVEC3, m_dv3 v) \<Rightarrow> Some (val_DVec3 v)
      | (PTR, m_ptr v) \<Rightarrow> Some (val_ptr v)
      | (COLOR, m_color v) \<Rightarrow> Some (val_Color v)
      | (QUAT, m_quat v) \<Rightarrow> Some (val_Quat v)
      | _ \<Rightarrow> None)"

section \<open>Type descriptors\<close>

text \<open>
  The C++ types that reach the templates: the types with a \<open>_getVariantType\<close> overload of
  their own, any other named type, and \<open>const\<close>, pointer and reference types built on them.
\<close>

datatype ctype =
    T_void | T_bool | T_i32 | T_u32 | T_float | T_char | T_EntityPtr | T_EntityRef
  | T_Vec2 | T_Vec3 | T_Vec4 | T_Path | T_Color | T_DVec3 | T_Quat
  | T_named string
  | T_const ctype
  | T_pointer ctype
  | T_reference ctype

text \<open>
  Modelled from the spec: the type traits \<open>RemoveReference\<close>, \<open>RemoveConst\<close>,
  \<open>RemovePointer\<close> and \<open>RemoveCVR\<close> of core/metaprogramming.h, which is not among the
  sources. The spec's type descriptor records whether a type is const, a reference or a
  pointer; each trait strips the outermost such layer and \<open>RemoveCVR\<close> strips the
  reference and then the const.
\<close>

fun RemoveReference :: "ctype \<Rightarrow> ctype" where
  "RemoveReference (T_reference t) = t"
| "RemoveReference t = t"

fun RemoveConst :: "ctype \<Rightarrow> ctype" where
  "RemoveConst (T_const t) = t"
| "RemoveConst t = t"

fun RemovePointer :: "ctype \<Rightarrow> ctype" where
  "RemovePointer (T_pointer t) = t"
| "RemovePointer t = t"

definition RemoveCVR :: "ctype \<Rightarrow> ctype" where
  "RemoveCVR t = RemoveConst (RemoveReference t)"

text \<open>
  \<open>_getVariantType\<close>: overload resolution takes the non-template overload for the exact
  type and otherwise one of the two templates, both of which give \<open>PTR\<close>.
\<close>

fun getVariantType_tag :: "ctype \<Rightarrow> Variant_Type" where
  "getVariantType_tag T_void = VOID"
| "getVariantType_tag T_bool = BOOL"
| "getVariantType_tag T_i32 = I32"
| "getVariantType_tag T_u32 = U32"
| "getVariantType_tag T_float = FLOAT"
| "getVariantType_tag (T_pointer (T_const T_char)) = CSTR"
| "getVariantType_tag T_EntityPtr = ENTITY"
| "getVariantType_tag T_EntityRef = ENTITY"
| "getVariantType_tag T_Vec2 = VEC2"
| "getVariantType_tag T_Vec3 = VEC3"
| "getVariantType_tag T_Vec4 = VEC4"
| "getVariantType_tag T_Path = CSTR"
| "getVariantType_tag T_Color = COLOR"
| "getVariantType_tag T_DVec3 = DVEC3"
| "getVariantType_tag T_Quat = QUAT"
| "getVariantType_tag _ = PTR"

definition getVariantType :: "ctype \<Rightarrow> Variant_Type" where
  "getVariantType t = getVariantType_tag (RemoveCVR t)"

text \<open>The C++ type of each value that \<open>operator =\<close> accepts (the overload's parameter type).\<close>

fun ctype_of :: "('p, 'path) cvalue \<Rightarrow> ctype" where
  "ctype_of (val_bool _) = T_bool"
| "ctype_of (val_i32 _) = T_i32"
| "ctype_of (val_u32 _) = T_u32"
| "ctype_of (val_float _) = T_float"
| "ctype_of (val_Path _) = T_reference (T_const T_Path)"
| "ctype_of (val_cstr _) = T_pointer (T_const T_char)"
| "ctype_of (val_EntityPtr _) = T_EntityPtr"
| "ctype_of (val_Vec2 _) = T_Vec2"
| "ctype_of (val_Vec3 _) = T_Vec3"
| "ctype_of (val_Vec4 _) = T_Vec4"
| "ctype_of (val_DVec3 _) = T_reference (T_const T_DVec3)"
| "ctype_of (val_ptr _) = T_pointer T_void"
| "ctype_of (val_Color _) = T_Color"
| "ctype_of (val_Quat _) = T_reference (T_const T_Quat)"

text \<open>
  \<open>getTypeName<T>()\<close> cuts the type's name out of the compiler's \<open>__PRETTY_FUNCTION__\<close>
  and \<open>sizeof(T)\<close> depends on the target: both are parameters, given together.
\<close>

record platform =
  getTypeName :: "ctype \<Rightarrow> string"
  sizeof :: "ctype \<Rightarrow> nat"

record TypeDescriptor =
  type :: Variant_Type
  type_name :: string
  is_const :: bool
  is_reference :: bool
  is_pointer :: bool
  td_size :: nat

definition toTypeDescriptor :: "platform \<Rightarrow> ctype \<Rightarrow> TypeDescriptor" where
  "toTypeDescriptor pf t =
     \<lparr>TypeDescriptor.type = getVariantType t,
      type_name = getTypeName pf (RemoveCVR (RemovePointer t)),
      is_const = (t \<noteq> RemoveConst t),
      is_reference = (t \<noteq> RemoveReference t),
      is_pointer = (t \<noteq> RemovePointer t),
      td_size = (if t = T_void then 0 else sizeof pf t)\<rparr>"

text \<open>
  The array \<open>expand\<close> of \<open>ArgToTypeDescriptor<F>::get\<close> and of \<open>Event::getArgType\<close>: the
  descriptors of \<open>Args...\<close> and then one more element, initialised from
  \<open>Variant::Type::VOID\<close> alone (the other fields are value-initialised). The C++ reads
  \<open>expand[i]\<close> unchecked; an index past the array is the fault \<open>OutOfBounds\<close> here.
\<close>

datatype bind_fault = OutOfBounds

definition expand :: "platform \<Rightarrow> ctype list \<Rightarrow> TypeDescriptor list" where
  "expand pf Args =
     map (toTypeDescriptor pf) Args @
     [\<lparr>TypeDescriptor.type = VOID, type_name = [], is_const = False, is_reference = False,
       is_pointer = False, td_size = 0\<rparr>]"

definition ArgToTypeDescriptor_get :: "platform \<Rightarrow> ctype list \<Rightarrow> nat \<Rightarrow> bind_fault + TypeDescriptor" where
  "ArgToTypeDescriptor_get pf Args n =
     (if n < length (expand pf Args) then Inr (expand pf Args ! n) else Inl OutOfBounds)"

section \<open>Functions and events\<close>

text \<open>
  \<open>Function<function>\<close>, the implementation of \<open>FunctionBase\<close> in the header, for a
  method pointer of type \<open>F = R (C::*)(Args...)\<close>: the wrapper knows \<open>R\<close> and \<open>Args\<close>,
  and \<open>getDelegateStub\<close> returns the address of \<open>DelegateStub<F, function>::stub\<close>
  (\<open>'stub\<close> is the type of such addresses). The field \<open>name\<close> is \<open>fn_name\<close> here.
\<close>

record 'stub Function =
  fn_name :: string
  R :: ctype
  Args :: "ctype list"
  stub :: 'stub

definition getArgCount :: "'stub Function \<Rightarrow> nat" where
  "getArgCount fn = length (Args fn)"

definition getReturnType :: "platform \<Rightarrow> 'stub Function \<Rightarrow> TypeDescriptor" where
  "getReturnType pf fn = toTypeDescriptor pf (R fn)"

definition getArgType :: "platform \<Rightarrow> 'stub Function \<Rightarrow> nat \<Rightarrow> bind_fault + TypeDescriptor" where
  "getArgType pf fn n = ArgToTypeDescriptor_get pf (Args fn) n"

definition getDelegateStub :: "'stub Function \<Rightarrow> 'stub" where
  "getDelegateStub fn = stub fn"

text \<open>
  \<open>memcpy(dst, src, n)\<close> on byte sequences: the first \<open>n\<close> bytes of the destination are
  replaced by the first \<open>n\<close> bytes of the source.
\<close>

definition memcpy :: "u8 list \<Rightarrow> u8 list \<Rightarrow> nat \<Rightarrow> u8 list" where
  "memcpy dst src n = take n src @ drop n dst"

text \<open>
  \<open>VariantCaller<F>::call\<close> (both specialisations have the same body) and
  \<open>Function::invoke\<close>. The bound method is \<open>func\<close>: it gets the instance and the unpacked
  arguments and gives its return value and the instance afterwards. \<open>unpack\<close> is the pack
  expansion \<open>fromVariant(I, args, VariantTag<RemoveCVR<Args>>{})...\<close>. \<open>repr\<close> gives the
  object representation of the returned value \<open>v\<close>, whose length is \<open>sizeof(v)\<close>;
  \<open>ret_mem\<close> is the span's bytes, its length \<open>ret_mem.length()\<close>. \<open>R_is_void\<close> is
  \<open>IsSame<R, void>::Value\<close>. The result is the span's bytes and the instance after the call.
\<close>

definition VariantCaller_call ::
  "bool \<Rightarrow> ('r \<Rightarrow> u8 list) \<Rightarrow> ('args_t \<Rightarrow> 'c \<Rightarrow> 'r \<times> 'c) \<Rightarrow> ('var list \<Rightarrow> 'args_t) \<Rightarrow>
   'c \<Rightarrow> u8 list \<Rightarrow> 'var list \<Rightarrow> u8 list \<times> 'c" where
  "VariantCaller_call R_is_void repr func unpack inst ret_mem args =
     (if R_is_void then
        (let (v, inst') = func (unpack args) inst in (ret_mem, inst'))
      else
        (let (v, inst') = func (unpack args) inst in
         if length ret_mem = length (repr v)
         then (memcpy ret_mem (repr v) (length (repr v)), inst')
         else (ret_mem, inst')))"

definition invoke ::
  "bool \<Rightarrow> ('r \<Rightarrow> u8 list) \<Rightarrow> ('args_t \<Rightarrow> 'c \<Rightarrow> 'r \<times> 'c) \<Rightarrow> ('var list \<Rightarrow> 'args_t) \<Rightarrow>
   'c \<Rightarrow> u8 list \<Rightarrow> 'var list \<Rightarrow> u8 list \<times> 'c" where
  "invoke R_is_void repr func unpack obj ret_mem args =
     VariantCaller_call R_is_void repr func unpack obj ret_mem args"

text \<open>
  \<open>Event<DelegateList<void(Args...)>& (C::*)()>\<close>. Its \<open>function\<close> is a method of the
  object that returns a reference to the object's delegate list: the pair \<open>function_get\<close>
  (the list in an object) and \<open>function_put\<close> (the object with that list replaced).
  The field \<open>name\<close> is \<open>event_name\<close> here.
\<close>

record ('c, 'dl) Event =
  event_name :: string
  event_Args :: "ctype list"
  function_get :: "'c \<Rightarrow> 'dl"
  function_put :: "'c \<Rightarrow> 'dl \<Rightarrow> 'c"

definition Event_getArgCount :: "('c, 'dl) Event \<Rightarrow> nat" where
  "Event_getArgCount ev = length (event_Args ev)"

text \<open>
  The loop of \<open>Event::bind\<close> from index \<open>n\<close> on: \<open>False\<close> at the first position where the
  \<open>type\<close> fields of the two descriptors differ, \<open>True\<close> when the loop runs to its end.
\<close>

function bind_loop :: "platform \<Rightarrow> ctype list \<Rightarrow> 'stub Function \<Rightarrow> nat \<Rightarrow> bind_fault + bool" where
  "bind_loop pf ev_Args fn n =
     (if n < getArgCount fn then
        (case (getArgType pf fn n, ArgToTypeDescriptor_get pf ev_Args n) of
           (Inr fn_arg, Inr ev_arg) \<Rightarrow>
             if TypeDescriptor.type fn_arg \<noteq> TypeDescriptor.type ev_arg then Inr False
             else bind_loop pf ev_Args fn (Suc n)
         | _ \<Rightarrow> Inl OutOfBounds)
      else Inr True)"
  by pat_completeness auto
termination
  by (relation "measure (\<lambda>(pf, ev_Args, fn, n). getArgCount fn - n)") auto

declare bind_loop.simps [simp del]

text \<open>
  \<open>Event::bind(object, fn_object, fn)\<close>. \<open>DelegateList::bindRaw\<close> (core/delegate_list.h)
  is the parameter \<open>bindRaw\<close>. The result is the returned flag and the object afterwards.
\<close>

definition bind ::
  "platform \<Rightarrow> ('dl \<Rightarrow> 'o \<Rightarrow> 'stub \<Rightarrow> 'dl) \<Rightarrow> ('c, 'dl) Event \<Rightarrow> 'c \<Rightarrow> 'o \<Rightarrow> 'stub Function \<Rightarrow>
   bind_fault + bool \<times> 'c" where
  "bind pf bindRaw ev object fn_object fn =
     (if getArgCount fn \<noteq> length (event_Args ev) then Inr (False, object)
      else
        (case bind_loop pf (event_Args ev) fn 0 of
           Inl err \<Rightarrow> Inl err
         | Inr False \<Rightarrow> Inr (False, object)
         | Inr True \<Rightarrow>
             Inr (True,
               function_put ev object
                 (bindRaw (function_get ev object) fn_object (getDelegateStub fn)))))"

section \<open>The registration builder\<close>

text \<open>
  \<open>Module\<close>; its \<open>name\<close> and \<open>functions\<close> are \<open>mod_name\<close> and \<open>module_functions\<close>
  here. The builder's \<open>module\<close> pointer is the only part of the builder that \<open>function\<close>
  and \<open>event\<close> use, so both are functions on the module. The wrapper is allocated, gets its
  name and is pushed onto an array.
\<close>

record ('m, 'v, 'a, 'fn, 'ev) Module =
  module_functions :: "'fn list"
  events :: "'ev list"
  cmps :: "('m, 'v, 'a, 'fn) ComponentBase list"
  mod_name :: string

definition builder_event ::
  "('c, 'dl) Event \<Rightarrow> string \<Rightarrow> ('m, 'v, 'a, 'fn, ('c, 'dl) Event) Module \<Rightarrow>
   ('m, 'v, 'a, 'fn, ('c, 'dl) Event) Module" where
  "builder_event F nm md = md\<lparr>events := events md @ [F\<lparr>event_name := nm\<rparr>]\<rparr>"

definition builder_function ::
  "'stub Function \<Rightarrow> string \<Rightarrow> ('m, 'v, 'a, 'stub Function, 'ev) Module \<Rightarrow>
   ('m, 'v, 'a, 'stub Function, 'ev) Module" where
  "builder_function F nm md =
     (let fn = F\<lparr>fn_name := nm\<rparr> in
      if cmps md = [] then md\<lparr>module_functions := module_functions md @ [fn]\<rparr>
      else md\<lparr>cmps := butlast (cmps md) @
                  [(last (cmps md))\<lparr>cmp_functions := cmp_functions (last (cmps md)) @ [fn]\<rparr>]\<rparr>)"

text \<open>
  The member pointers given to \<open>builder::prop\<close>. The thunks test \<open>ArgsCount\<close>: a getter
  takes the entity alone or the entity and the index, a setter takes the entity and the
  value or the entity, the index and the value. \<open>static_cast<C*>(module)\<close> is the module.
\<close>

datatype ('c, 't) Getter =
    Getter1 "'c \<Rightarrow> EntityRef \<Rightarrow> 't"
  | Getter2 "'c \<Rightarrow> EntityRef \<Rightarrow> u32 \<Rightarrow> 't"

datatype ('c, 't) Setter =
    Setter2 "'c \<Rightarrow> EntityRef \<Rightarrow> 't \<Rightarrow> 'c"
  | Setter3 "'c \<Rightarrow> EntityRef \<Rightarrow> u32 \<Rightarrow> 't \<Rightarrow> 'c"

fun call_Getter :: "('c, 't) Getter \<Rightarrow> 'c \<Rightarrow> EntityRef \<Rightarrow> u32 \<Rightarrow> 't" where
  "call_Getter (Getter1 g) md ent idx = g md ent"
| "call_Getter (Getter2 g) md ent idx = g md ent idx"

fun call_Setter :: "('c, 't) Setter \<Rightarrow> 'c \<Rightarrow> EntityRef \<Rightarrow> u32 \<Rightarrow> 't \<Rightarrow> 'c" where
  "call_Setter (Setter2 st) md ent idx val = st md ent val"
| "call_Setter (Setter3 st) md ent idx val = st md ent idx val"

text \<open>
  An enum type \<open>T\<close> with an underlying type of \<open>LENGTH('w)\<close> bits, signed or not
  (\<open>sg\<close>), is the word of its underlying value. \<open>static_cast<i32>\<close> of an enum value
  extends it by its sign or by zeros, or truncates it; \<open>static_cast<T>\<close> of an \<open>i32\<close>
  converts the signed 32-bit value to the underlying type.
\<close>

definition enum_to_i32 :: "bool \<Rightarrow> 'w::len word \<Rightarrow> i32" where
  "enum_to_i32 sg x = (if sg then scast x else ucast x)"

definition i32_to_enum :: "i32 \<Rightarrow> 'w::len word" where
  "i32_to_enum v = scast v"

text \<open>
  \<open>builder::prop<Getter, Setter>(name)\<close> up to the call of \<open>addProp\<close>: the
  \<open>Property<Backing>\<close> it allocates and fills. The template has two instances, told apart
  by \<open>__is_enum(T)\<close>: \<open>builder_prop\<close> for a \<open>T\<close> that is no enum (the backing type is
  \<open>T\<close>), \<open>builder_prop_enum\<close> for an enum (the backing type is \<open>i32\<close>). \<open>None\<close> is the
  default template argument \<open>Setter = nullptr\<close>. A new property has no attributes.
\<close>

definition builder_prop ::
  "('c, 't) Getter \<Rightarrow> ('c, 't) Setter option \<Rightarrow> string \<Rightarrow> ('c, 't, 'a) Property" where
  "builder_prop Getter Setter nm =
     \<lparr>name = nm, attributes = [],
      setter = (case Setter of
                  None \<Rightarrow> None
                | Some S \<Rightarrow> Some (\<lambda>md ent idx val. call_Setter S md ent idx val)),
      getter = (\<lambda>md ent idx. call_Getter Getter md ent idx)\<rparr>"

definition builder_prop_enum ::
  "bool \<Rightarrow> ('c, 'w::len word) Getter \<Rightarrow> ('c, 'w word) Setter option \<Rightarrow> string \<Rightarrow>
   ('c, i32, 'a) Property" where
  "builder_prop_enum sg Getter Setter nm =
     \<lparr>name = nm, attributes = [],
      setter = (case Setter of
                  None \<Rightarrow> None
                | Some S \<Rightarrow> Some (\<lambda>md ent idx val. call_Setter S md ent idx (i32_to_enum val))),
      getter = (\<lambda>md ent idx. enum_to_i32 sg (call_Getter Getter md ent idx))\<rparr>"

section \<open>Auxiliary definitions for the statements\<close>

text \<open>
  The \<open>Property<T>\<close> named \<open>nm\<close>, if this \<open>PropertyBase\<close> is one: what the override of
  \<open>getPropertyValue<T>\<close>'s visitor looks for.
\<close>

fun matching :: "PropType \<Rightarrow> string \<Rightarrow> ('m, 'v, 'a) PropertyBase \<Rightarrow> ('m, 'v, 'a) Property option" where
  "matching T nm (PropertyT t prop) = (if t = T \<and> name prop = nm then Some prop else None)"
| "matching T nm (ArrayProperty a cs) = None"
| "matching T nm (BlobProperty bp) = None"



fun name_of :: "('m, 'v, 'a) PropertyBase \<Rightarrow> string" where
  "name_of (PropertyT t p) = name p"
| "name_of (ArrayProperty a cs) = name a"
| "name_of (BlobProperty bp) = name bp"

text \<open>
  A callable for \<open>forEachProperty\<close> that appends each call to a log: the property's name and
  the name of the parent it was given.
\<close>

definition record_call ::
  "('m, 'v, 'a) PropertyBase \<Rightarrow> ('m, 'v, 'a) PropertyBase option \<Rightarrow>
   (string \<times> string option) list \<Rightarrow> (string \<times> string option) list" where
  "record_call p parent calls = calls @ [(name_of p, map_option name_of parent)]"

section \<open>Concrete inputs\<close>

text \<open>
  A module that keeps one \<open>i32\<close> per entity, with a getter and a setter for it, and the
  same for a module that keeps an enum with an unsigned 8-bit underlying type.
\<close>

type_synonym world = "EntityRef \<Rightarrow> i32"

definition example_world :: world where
  "example_world = (\<lambda>ent. 0)"

definition example_get :: "world \<Rightarrow> EntityRef \<Rightarrow> i32" where
  "example_get md ent = md ent"

definition example_set :: "world \<Rightarrow> EntityRef \<Rightarrow> i32 \<Rightarrow> world" where
  "example_set md ent val = md(ent := val)"

type_synonym world8 = "EntityRef \<Rightarrow> 8 word"


definition example_get8 :: "world8 \<Rightarrow> EntityRef \<Rightarrow> 8 word" where
  "example_get8 md ent = md ent"







definition example_uid :: "world ComponentUID" where
  "example_uid = \<lparr>module = example_world, entity = 7, cmp_type = 1\<rparr>"


text \<open>
  A property with a setter and four attributes, as \<open>prop\<close> followed by \<open>minAttribute\<close>,
  \<open>clampAttribute\<close>, \<open>colorAttribute\<close> and \<open>clampAttribute\<close> leave it, and a property
  registered without a setter.
\<close>

definition example_attributes :: "(world, nat) IAttribute list" where
  "example_attributes = [MinAttribute 1, ClampAttribute 2 3, ColorAttribute, ClampAttribute 4 5]"

definition example_prop :: "(world, i32, (world, nat) IAttribute) Property" where
  "example_prop =
     (builder_prop (Getter1 example_get) (Some (Setter2 example_set)) ''value'')
       \<lparr>attributes := example_attributes\<rparr>"

definition example_readonly :: "(world, i32, (world, nat) IAttribute) Property" where
  "example_readonly = builder_prop (Getter1 example_get) None ''id''"




text \<open>
  A component with four top-level properties: \<open>value\<close> (an \<open>int\<close>), the array \<open>items\<close>
  with the two children \<open>id\<close> and \<open>blob\<close>, \<open>id\<close> (a \<open>float\<close>) and a second \<open>value\<close>.
  The registry knows this component alone, under the type 1.
\<close>

definition example_array :: "(world, i32, (world, nat) IAttribute) PropertyBase" where
  "example_array =
     ArrayProperty
       \<lparr>name = ''items'', attributes = [], counter = (\<lambda>md ent. 2),
        adder = (\<lambda>md ent idx. md), remover = (\<lambda>md ent idx. md)\<rparr>
       [PropertyT P_int example_readonly,
        BlobProperty \<lparr>name = ''blob'', attributes = [],
          blob_getter = (\<lambda>md ent idx out. out), blob_setter = (\<lambda>md ent idx inp. md)\<rparr>]"

definition example_cmp ::
  "(world, i32, (world, nat) IAttribute, nat Function) ComponentBase" where
  "example_cmp =
     \<lparr>icon = [], cmp_name = ''thing'', label = ''Thing'',
      creator = (\<lambda>md ent. md), destroyer = (\<lambda>md ent. md), component_type = 1,
      props = [PropertyT P_int example_prop, example_array,
               PropertyT P_float (example_prop\<lparr>name := ''id''\<rparr>),
               PropertyT P_int (example_prop\<lparr>name := ''value''\<rparr>)],
      cmp_functions = []\<rparr>"

definition example_getComponent ::
  "ComponentType \<Rightarrow> (world, i32, (world, nat) IAttribute, nat Function) ComponentBase option" where
  "example_getComponent ty = (if ty = 1 then Some example_cmp else None)"

text \<open>
  An event with the arguments \<open>(const char*)\<close> on an object that is its delegate list, a
  \<open>bindRaw\<close> that appends the pair of the bound object and the stub, and four functions.
  No result below depends on the platform; the concrete inputs use this one.
\<close>

definition some_platform :: platform where
  "some_platform = \<lparr>getTypeName = (\<lambda>t. []), sizeof = (\<lambda>t. 0)\<rparr>"

definition example_bindRaw :: "(nat \<times> nat) list \<Rightarrow> nat \<Rightarrow> nat \<Rightarrow> (nat \<times> nat) list" where
  "example_bindRaw dl fn_object st = dl @ [(fn_object, st)]"

definition example_event :: "((nat \<times> nat) list, (nat \<times> nat) list) Event" where
  "example_event =
     \<lparr>event_name = ''on_text'', event_Args = [T_pointer (T_const T_char)],
      function_get = (\<lambda>obj. obj), function_put = (\<lambda>obj dl. dl)\<rparr>"

definition takes_cstr :: "nat Function" where
  "takes_cstr = \<lparr>fn_name = ''print'', R = T_void, Args = [T_pointer (T_const T_char)], stub = 11\<rparr>"

definition takes_Path :: "nat Function" where
  "takes_Path = \<lparr>fn_name = ''open'', R = T_void, Args = [T_Path], stub = 12\<rparr>"

definition takes_two :: "nat Function" where
  "takes_two =
     \<lparr>fn_name = ''move'', R = T_void, Args = [T_pointer (T_const T_char), T_i32], stub = 13\<rparr>"

definition takes_i32 :: "nat Function" where
  "takes_i32 = \<lparr>fn_name = ''count'', R = T_void, Args = [T_i32], stub = 14\<rparr>"

text \<open>
  A method without arguments on a counter: it returns the \<open>u32\<close> \<open>0x01020304\<close> and
  increments the counter. \<open>example_repr\<close> is the little-endian object representation.
\<close>

definition example_method :: "unit \<Rightarrow> nat \<Rightarrow> u32 \<times> nat" where
  "example_method args inst = (0x01020304, Suc inst)"

definition example_repr :: "u32 \<Rightarrow> u8 list" where
  "example_repr v = [ucast v, ucast (drop_bit 8 v), ucast (drop_bit 16 v), ucast (drop_bit 24 v)]"

definition example_unpack :: "nat Variant list \<Rightarrow> unit" where
  "example_unpack args = ()"

text \<open>A module with the component above open, and a module with no component yet.\<close>

definition example_module ::
  "(world, i32, (world, nat) IAttribute, nat Function,
    ((nat \<times> nat) list, (nat \<times> nat) list) Event) Module" where
  "example_module =
     \<lparr>module_functions = [], events = [], cmps = [example_cmp], mod_name = ''demo''\<rparr>"

definition empty_module ::
  "(world, i32, (world, nat) IAttribute, nat Function,
    ((nat \<times> nat) list, (nat \<times> nat) list) Event) Module" where
  "empty_module = \<lparr>module_functions = [], events = [], cmps = [], mod_name = ''demo''\<rparr>"

section \<open>Attribute lookup\<close>

lemma getAttribute_loop_find: "getAttribute_loop gt as ty = List.find (\<lambda>a. gt a = ty) as"
  by (induction as) auto

lemma getAttribute_loop_Some:
  "getAttribute_loop gt as ty = Some a \<longleftrightarrow>
     (\<exists>n < length as. as ! n = a \<and> gt a = ty \<and> (\<forall>j < n. gt (as ! j) \<noteq> ty))"
  by (auto simp add: getAttribute_loop_find find_Some_iff)

lemma getAttribute_loop_None:
  "getAttribute_loop gt as ty = None \<longleftrightarrow> (\<forall>a \<in> set as. gt a \<noteq> ty)"
  by (auto simp add: getAttribute_loop_find find_None_iff)

text \<open>
  C10. \<open>getAttribute(prop, type)\<close> returns an attribute exactly when it is the first one in
  the property's attribute list, in registration order, whose \<open>getType()\<close> is the requested
  kind, and returns null exactly when no attribute of that kind is attached.
\<close>

theorem getAttribute_first_match:
  "(getAttribute gt prop ty = Some a \<longleftrightarrow>
      (\<exists>n < length (attributes prop). attributes prop ! n = a \<and> gt a = ty \<and>
         (\<forall>j < n. gt (attributes prop ! j) \<noteq> ty))) \<and>
   (getAttribute gt prop ty = None \<longleftrightarrow> (\<forall>b \<in> set (attributes prop). gt b \<noteq> ty))"
  unfolding getAttribute_def by (simp only: getAttribute_loop_Some getAttribute_loop_None)

text \<open>
  Of the two clamp attributes of the example the first is returned; the example has no
  resource attribute.
\<close>

theorem getAttribute_first_match_witness:
  "getAttribute getType example_prop IAttribute_CLAMP = Some (ClampAttribute 2 3) \<and>
   (\<exists>n < length (attributes example_prop).
      attributes example_prop ! n = ClampAttribute 2 3 \<and>
      (\<forall>j < n. getType (attributes example_prop ! j) \<noteq> IAttribute_CLAMP)) \<and>
   getAttribute getType example_prop IAttribute_RESOURCE = None"
proof -
  have v: "getAttribute getType example_prop IAttribute_CLAMP = Some (ClampAttribute 2 3)"
    by (simp add: getAttribute_def example_prop_def example_attributes_def)
  have n: "\<forall>b \<in> set (attributes example_prop). getType b \<noteq> IAttribute_RESOURCE"
    by (simp add: example_prop_def example_attributes_def)
  from v n getAttribute_first_match [of getType example_prop IAttribute_CLAMP "ClampAttribute 2 3"]
    getAttribute_first_match [of getType example_prop IAttribute_RESOURCE "ClampAttribute 2 3"]
  show ?thesis by simp
qed

section \<open>The walk of \<open>forEachProperty\<close>\<close>

lemma Helper_visit_leaf:
  "\<not> is_array c \<Longrightarrow> Helper_visit f c (parent, s) = (parent, f c parent s)"
  by (cases c) simp_all

lemma Helper_visit_leaves:
  "\<forall>c \<in> set cs. \<not> is_array c \<Longrightarrow>
   fold (Helper_visit f) cs (parent, s) = (parent, fold (\<lambda>c. f c parent) cs s)"
  by (induction cs arbitrary: s) (simp_all add: Helper_visit_leaf)

lemma fold_calls_children:
  "fold (\<lambda>(q, par). f q par) (map (\<lambda>c. (c, Some p)) cs) s = fold (\<lambda>c. f c (Some p)) cs s"
  by (induction cs arbitrary: s) simp_all

lemma Helper_visit_top:
  assumes "\<forall>c \<in> set (children p). \<not> is_array c"
  shows "Helper_visit f p (None, s) =
         (None, fold (\<lambda>(q, par). f q par) ((p, None) # map (\<lambda>c. (c, Some p)) (children p)) s)"
proof (cases p)
  case (ArrayProperty a cs)
  with assms have "\<forall>c \<in> set cs. \<not> is_array c" by simp
  then show ?thesis
    using ArrayProperty by (simp add: Helper_visit_leaves fold_calls_children Let_def)
qed simp_all

lemma Helper_visit_props:
  "\<forall>p \<in> set ps. \<forall>c \<in> set (children p). \<not> is_array c \<Longrightarrow>
   fold (Helper_visit f) ps (None, s) =
   (None, fold (\<lambda>(q, par). f q par)
            (concat (map (\<lambda>p. (p, None) # map (\<lambda>c. (c, Some p)) (children p)) ps)) s)"
proof (induction ps arbitrary: s)
  case Nil
  then show ?case by simp
next
  case (Cons p ps)
  from Cons.prems have first: "\<forall>c \<in> set (children p). \<not> is_array c"
    and rest: "\<forall>q \<in> set ps. \<forall>c \<in> set (children q). \<not> is_array c" by simp_all
  show ?case
    by (simp only: fold_Cons o_apply Helper_visit_top [OF first] Cons.IH [OF rest] list.map
        concat.simps fold_append)
qed

lemma length_expected_calls:
  "length (expected_calls cmp) =
   length (props cmp) + sum_list (map (\<lambda>p. length (children p)) (filter is_array (props cmp)))"
proof -
  have "length (concat (map (\<lambda>p. (p, None) # map (\<lambda>c. (c, Some p)) (children p)) ps)) =
        length ps + sum_list (map (\<lambda>p. length (children p)) (filter is_array ps))"
    for ps :: "('a, 'b, 'c) PropertyBase list"
  proof (induction ps)
    case (Cons p ps)
    then show ?case by (cases p) simp_all
  qed simp
  then show ?thesis by (simp add: expected_calls_def)
qed

lemma example_cmp_flat: "flat example_cmp"
  by (simp add: flat_def example_cmp_def example_array_def)

text \<open>
  C3. For a registered component (found by \<open>getComponent\<close>, no array inside an array) with
  \<open>N\<close> top-level properties, of which the arrays have \<open>k_i\<close> children each,
  \<open>forEachProperty(cmp_type, f)\<close> makes exactly the calls of \<open>expected_calls\<close>, in that
  order: \<open>f\<close> once per top-level property with a null parent, and after an array once per
  child with that array as the parent, the parent being null again for the property after
  the array. These are \<open>N\<close> plus the sum of the \<open>k_i\<close> calls.
\<close>

theorem forEachProperty_calls:
  assumes "getComponent ty = Some cmp" and "flat cmp"
  shows "forEachProperty getComponent ty f s =
           fold (\<lambda>(p, parent). f p parent) (expected_calls cmp) s \<and>
         length (expected_calls cmp) =
           length (props cmp) +
           sum_list (map (\<lambda>p. length (children p)) (filter is_array (props cmp)))"
  using assms
  by (simp add: forEachProperty_def ComponentBase_visit_def flat_def Helper_visit_props
      expected_calls_def [symmetric] length_expected_calls)

text \<open>
  On the example component the log has the four top-level properties with no parent and
  the two children of \<open>items\<close> with the parent \<open>items\<close>: six calls.
\<close>

theorem forEachProperty_calls_witness:
  "example_getComponent 1 = Some example_cmp \<and> flat example_cmp \<and>
   forEachProperty example_getComponent 1 record_call [] =
     [(''value'', None), (''items'', None), (''id'', Some ''items''), (''blob'', Some ''items''),
      (''id'', None), (''value'', None)] \<and>
   length (expected_calls example_cmp) = 4 + 2"
proof -
  have g: "example_getComponent 1 = Some example_cmp" by (simp add: example_getComponent_def)
  have calls: "fold (\<lambda>(p, parent). record_call p parent) (expected_calls example_cmp) [] =
     [(''value'', None), (''items'', None), (''id'', Some ''items''), (''blob'', Some ''items''),
      (''id'', None), (''value'', None)]"
    by (simp add: expected_calls_def example_cmp_def example_array_def record_call_def
        example_prop_def example_readonly_def builder_prop_def)
  have n: "length (props example_cmp) +
      sum_list (map (\<lambda>p. length (children p)) (filter is_array (props example_cmp))) = 4 + 2"
    by (simp add: example_cmp_def example_array_def)
  from forEachProperty_calls [where getComponent = example_getComponent and ty = 1
      and cmp = example_cmp and f = record_call and s = "[]", OF g example_cmp_flat]
    g example_cmp_flat calls n
  show ?thesis by simp
qed

text \<open>
  C8. When \<open>getComponent\<close> returns the null pointer for the component type,
  \<open>forEachProperty(cmp_type, f)\<close> returns normally and has not called \<open>f\<close>: whatever \<open>f\<close>
  does to the state it works on, that state is as before.
\<close>

theorem forEachProperty_lookup_miss:
  "getComponent ty = None \<Longrightarrow> forEachProperty getComponent ty f s = s"
  by (simp add: forEachProperty_def)

text \<open>The example registry has no component of type 2, and the log stays empty.\<close>

theorem forEachProperty_lookup_miss_witness:
  "example_getComponent 2 = None \<and> forEachProperty example_getComponent 2 record_call [] = []"
proof -
  have g: "example_getComponent 2 = None" by (simp add: example_getComponent_def)
  from forEachProperty_lookup_miss [where getComponent = example_getComponent and ty = 2
      and f = record_call and s = "[]", OF g] g
  show ?thesis by simp
qed

section \<open>Binding a function to an event\<close>

lemma expand_nth:
  "n < length As \<Longrightarrow> expand pf As ! n = toTypeDescriptor pf (As ! n)"
  by (simp add: expand_def nth_append)

lemma ArgToTypeDescriptor_get_arg:
  "n < length As \<Longrightarrow> ArgToTypeDescriptor_get pf As n = Inr (toTypeDescriptor pf (As ! n))"
  by (simp add: ArgToTypeDescriptor_get_def expand_nth) (simp add: expand_def)

lemma type_toTypeDescriptor: "TypeDescriptor.type (toTypeDescriptor pf t) = getVariantType t"
  by (simp add: toTypeDescriptor_def)

text \<open>
  The loop never reads past the arrays, and from index \<open>n\<close> on it accepts exactly when the
  tags agree at every remaining position.
\<close>

lemma bind_loop_tags:
  "length ev_Args = getArgCount fn \<Longrightarrow>
   bind_loop pf ev_Args fn n =
     Inr (\<forall>k. n \<le> k \<and> k < getArgCount fn \<longrightarrow>
            getVariantType (Args fn ! k) = getVariantType (ev_Args ! k))"
proof (induction pf ev_Args fn n rule: bind_loop.induct)
  case (1 pf ev_Args fn n)
  show ?case
  proof (cases "n < getArgCount fn")
    case False
    then show ?thesis by (subst bind_loop.simps) auto
  next
    case True
    then have fa: "getArgType pf fn n = Inr (toTypeDescriptor pf (Args fn ! n))"
      by (simp add: getArgType_def getArgCount_def ArgToTypeDescriptor_get_arg)
    from True "1.prems"
    have ea: "ArgToTypeDescriptor_get pf ev_Args n = Inr (toTypeDescriptor pf (ev_Args ! n))"
      by (simp add: ArgToTypeDescriptor_get_arg)
    show ?thesis
    proof (cases "getVariantType (Args fn ! n) = getVariantType (ev_Args ! n)")
      case False
      with True show ?thesis
        by (subst bind_loop.simps) (auto simp add: fa ea type_toTypeDescriptor)
    next
      case same: True
      have ih: "bind_loop pf ev_Args fn (Suc n) =
        Inr (\<forall>k. Suc n \<le> k \<and> k < getArgCount fn \<longrightarrow>
            getVariantType (Args fn ! k) = getVariantType (ev_Args ! k))"
        using "1.IH" "1.prems" True fa ea same by (simp add: type_toTypeDescriptor)
      have split: "(\<forall>k. n \<le> k \<and> k < getArgCount fn \<longrightarrow>
            getVariantType (Args fn ! k) = getVariantType (ev_Args ! k)) \<longleftrightarrow>
          (\<forall>k. Suc n \<le> k \<and> k < getArgCount fn \<longrightarrow>
            getVariantType (Args fn ! k) = getVariantType (ev_Args ! k))"
        using same by (metis Suc_leI le_neq_implies_less Suc_leD)
      show ?thesis
        by (subst bind_loop.simps) (simp add: True fa ea type_toTypeDescriptor same ih split)
    qed
  qed
qed

text \<open>
  C1, as stated, fails: an event with the argument \<open>const char*\<close> and a function with the
  argument \<open>Path\<close> have different declared argument types, and different type descriptors,
  at position 0, and \<open>bind\<close> binds and returns true. Both types have the tag \<open>CSTR\<close>.
\<close>

theorem Event_bind_declared_type_counterexample:
  "Args takes_Path ! 0 \<noteq> event_Args example_event ! 0 \<and>
   getArgType some_platform takes_Path 0 \<noteq>
     ArgToTypeDescriptor_get some_platform (event_Args example_event) 0 \<and>
   bind some_platform example_bindRaw example_event [] 1 takes_Path = Inr (True, [(1, 12)])"
proof -
  have a: "Args takes_Path ! 0 \<noteq> event_Args example_event ! 0"
    by (simp add: takes_Path_def example_event_def)
  have d: "getArgType some_platform takes_Path 0 \<noteq>
     ArgToTypeDescriptor_get some_platform (event_Args example_event) 0"
    by (simp add: getArgType_def ArgToTypeDescriptor_get_def expand_def toTypeDescriptor_def
        takes_Path_def example_event_def)
  have r: "bind some_platform example_bindRaw example_event [] 1 takes_Path = Inr (True, [(1, 12)])"
    by (simp add: bind_def bind_loop.simps getArgCount_def getArgType_def
        ArgToTypeDescriptor_get_def expand_def toTypeDescriptor_def takes_Path_def
        example_event_def getVariantType_def RemoveCVR_def example_bindRaw_def
        getDelegateStub_def)
  from a d r show ?thesis by simp
qed

text \<open>
  C1, amended. \<open>Event::bind(object, fn_object, fn)\<close> returns false and leaves the object,
  and so its bindings, as they were when the argument count of \<open>fn\<close> differs from the
  event's, and also when the counts are equal and at some position the \<open>Variant\<close> type tag
  of the function's argument differs from the tag of the event's argument. It binds (calls
  \<open>bindRaw\<close> on the object's delegate list with \<open>fn_object\<close> and the stub) and returns
  true exactly when the counts are equal and the tags agree at every position. It reads no
  descriptor array out of bounds.
\<close>

theorem Event_bind_checks_tags:
  "bind pf bindRaw ev object fn_object fn =
     Inr (if getArgCount fn = Event_getArgCount ev \<and>
             (\<forall>k < getArgCount fn.
                getVariantType (Args fn ! k) = getVariantType (event_Args ev ! k))
          then (True, function_put ev object
                        (bindRaw (function_get ev object) fn_object (getDelegateStub fn)))
          else (False, object))"
proof (cases "getArgCount fn = length (event_Args ev)")
  case False
  then show ?thesis by (simp add: bind_def Event_getArgCount_def)
next
  case True
  then have "bind_loop pf (event_Args ev) fn 0 =
     Inr (\<forall>k < getArgCount fn. getVariantType (Args fn ! k) = getVariantType (event_Args ev ! k))"
    by (simp add: bind_loop_tags)
  with True show ?thesis
    by (auto simp add: bind_def Event_getArgCount_def split: bool.splits)
qed

text \<open>
  The event \<open>(const char*)\<close> accepts a function \<open>(const char*)\<close> and refuses, with the
  earlier binding untouched, a function with two arguments and a function \<open>(i32)\<close>.
\<close>

theorem Event_bind_checks_tags_witness:
  "bind some_platform example_bindRaw example_event [] 1 takes_cstr = Inr (True, [(1, 11)]) \<and>
   bind some_platform example_bindRaw example_event [(5, 6)] 1 takes_two = Inr (False, [(5, 6)]) \<and>
   bind some_platform example_bindRaw example_event [(5, 6)] 1 takes_i32 = Inr (False, [(5, 6)])"
  using Event_bind_checks_tags [of some_platform example_bindRaw example_event "[]" 1 takes_cstr]
    Event_bind_checks_tags [of some_platform example_bindRaw example_event "[(5, 6)]" 1 takes_two]
    Event_bind_checks_tags [of some_platform example_bindRaw example_event "[(5, 6)]" 1 takes_i32]
  by (simp add: getArgCount_def Event_getArgCount_def takes_cstr_def takes_two_def takes_i32_def
      example_event_def getVariantType_def RemoveCVR_def example_bindRaw_def getDelegateStub_def)

section \<open>Invoking a function\<close>

text \<open>
  C2. For a bound method with a non-void return type, \<open>invoke(obj, ret_mem, args)\<close> calls
  the method (the instance afterwards is the one the method leaves) and the bytes of
  \<open>ret_mem\<close> afterwards are the return value's bytes when \<open>ret_mem.length()\<close> equals the
  size of the return value, and the bytes they were when the sizes differ. The result has
  no error to report.
\<close>

theorem invoke_return_size:
  assumes "func (unpack args) obj = (v, obj')"
  shows "invoke False repr func unpack obj ret_mem args =
           (if length ret_mem = length (repr v) then repr v else ret_mem, obj')"
  using assms by (simp add: invoke_def VariantCaller_call_def memcpy_def)

text \<open>
  The example method returns a \<open>u32\<close>: a span of four bytes receives its bytes, a span of
  two bytes is left alone, and the counter is incremented both times.
\<close>

theorem invoke_return_size_witness:
  "example_method (example_unpack []) 0 = (0x01020304, 1) \<and>
   invoke False example_repr example_method example_unpack 0 [0, 0, 0, 0] [] = ([4, 3, 2, 1], 1) \<and>
   invoke False example_repr example_method example_unpack 0 [9, 9] [] = ([9, 9], 1)"
proof -
  have m: "example_method (example_unpack []) 0 = (0x01020304, 1)"
    by (simp add: example_method_def)
  have r: "example_repr 0x01020304 = [4, 3, 2, 1]"
    by (simp add: example_repr_def drop_bit_eq_div)
  from m r
    invoke_return_size [where func = example_method and unpack = example_unpack
      and args = "[]" and obj = 0 and repr = example_repr and ret_mem = "[0, 0, 0, 0]", OF m]
    invoke_return_size [where func = example_method and unpack = example_unpack
      and args = "[]" and obj = 0 and repr = example_repr and ret_mem = "[9, 9]", OF m]
  show ?thesis by simp
qed

section \<open>Assigning to a variant\<close>

text \<open>
  C4, as stated, fails for a \<open>Path\<close>: after \<open>v = path\<close> the member \<open>s\<close> named by the tag
  \<open>CSTR\<close> holds a \<open>const char*\<close>, the result of \<open>path.c_str()\<close>, and not the path that
  was assigned. The example path is the pair of its buffer's address and its characters.
\<close>

theorem Variant_assign_Path_counterexample:
  "read_tagged (assign fst Variant_init (val_Path (4096 :: nat, ''a.txt''))) \<noteq>
     Some (val_Path (4096 :: nat, ''a.txt''))"
  by (simp add: Variant_init_def)

text \<open>
  C4, amended. After \<open>v = x\<close>, for every value \<open>x\<close> that an assignment operator of
  \<open>Variant\<close> accepts, \<open>v.type\<close> is the tag that \<open>getVariantType\<close> gives for the type of
  \<open>x\<close> (\<open>CSTR\<close> for both \<open>const char*\<close> and \<open>Path\<close>), and reading the union member named
  by that tag returns the assigned value itself, except for a \<open>Path\<close>, where it returns the
  pointer \<open>x.c_str()\<close>.
\<close>

theorem Variant_assign_tag_and_value:
  "Variant.type (assign c_str var x) = getVariantType (ctype_of x) \<and>
   read_tagged (assign c_str var x) =
     Some (case x of val_Path pth \<Rightarrow> val_cstr (c_str pth) | _ \<Rightarrow> x)"
  by (cases x) (simp_all add: getVariantType_def RemoveCVR_def)

theorem Variant_assign_tag_and_value_witness:
  "Variant.type (assign fst Variant_init (val_Path (4096 :: nat, ''a.txt''))) = CSTR \<and>
   (read_tagged (assign fst Variant_init (val_Path (4096 :: nat, ''a.txt'')))
      :: (nat, nat \<times> string) cvalue option) = Some (val_cstr 4096) \<and>
   Variant.type (assign fst (Variant_init :: nat Variant)
      (val_bool True :: (nat, nat \<times> string) cvalue)) = BOOL \<and>
   (read_tagged (assign fst Variant_init (val_bool True :: (nat, nat \<times> string) cvalue))
      :: (nat, nat \<times> string) cvalue option) = Some (val_bool True)"
  using Variant_assign_tag_and_value [of fst Variant_init "val_Path (4096 :: nat, ''a.txt'')"]
    Variant_assign_tag_and_value [of fst "Variant_init :: nat Variant"
      "val_bool True :: (nat, nat \<times> string) cvalue"]
  by (simp add: getVariantType_def RemoveCVR_def)

section \<open>Read-only properties\<close>

text \<open>
  C5, as stated, fails in its second half: \<open>set\<close> on a property registered without a
  setter is not a call that returns with the module as it was. \<open>set\<close> calls through the
  null setter.
\<close>

theorem set_readonly_counterexample:
  "isReadonly example_readonly \<and>
   Property_set example_readonly example_uid 0 5 \<noteq> Inr (module example_uid)"
  by (simp add: isReadonly_def example_readonly_def builder_prop_def Property_set_def)

text \<open>
  C5, amended. A property built by \<open>builder::prop\<close> (either instance of the template) is
  read-only if and only if no setter was supplied. \<open>set\<close> does not look at
  \<open>isReadonly()\<close>: on a property with a setter it runs the setter, and on a read-only
  property it is a call through a null function pointer, neither a rejection nor a no-op.
\<close>

theorem isReadonly_iff_no_setter:
  "(isReadonly (builder_prop G S nm) \<longleftrightarrow> S = None) \<and>
   (isReadonly (builder_prop_enum sg G' S' nm') \<longleftrightarrow> S' = None) \<and>
   (isReadonly prop \<longrightarrow> Property_set prop cmp idx val = Inl NullCall) \<and>
   (\<forall>st. setter prop = Some st \<longrightarrow>
      Property_set prop cmp idx val = Inr (st (module cmp) (entity cmp) idx val))"
  by (auto simp add: isReadonly_def builder_prop_def builder_prop_enum_def Property_set_def
      split: option.splits)

theorem isReadonly_iff_no_setter_witness:
  "isReadonly example_readonly \<and> Property_set example_readonly example_uid 0 5 = Inl NullCall \<and>
   \<not> isReadonly example_prop \<and>
   Property_set example_prop example_uid 0 5 = Inr (example_set example_world 7 5)"
proof -
  have a: "(isReadonly (builder_prop (Getter1 example_get) None ''id''
               :: (world, i32, (world, nat) IAttribute) Property) \<longleftrightarrow>
              (None :: (world, i32) Setter option) = None) \<and>
           (isReadonly (builder_prop_enum False (Getter1 example_get8) None ''id''
               :: (world8, i32, (world, nat) IAttribute) Property) \<longleftrightarrow>
              (None :: (world8, 8 word) Setter option) = None) \<and>
           (isReadonly example_readonly \<longrightarrow>
              Property_set example_readonly example_uid 0 5 = Inl NullCall) \<and>
           (\<forall>st. setter example_readonly = Some st \<longrightarrow>
              Property_set example_readonly example_uid 0 5 =
                Inr (st (module example_uid) (entity example_uid) 0 5))"
    by (rule isReadonly_iff_no_setter)
  have b: "(isReadonly (builder_prop (Getter1 example_get) (Some (Setter2 example_set)) ''value''
               :: (world, i32, (world, nat) IAttribute) Property) \<longleftrightarrow>
              Some (Setter2 example_set) = None) \<and>
           (isReadonly (builder_prop_enum False (Getter1 example_get8) None ''id''
               :: (world8, i32, (world, nat) IAttribute) Property) \<longleftrightarrow>
              (None :: (world8, 8 word) Setter option) = None) \<and>
           (isReadonly example_prop \<longrightarrow>
              Property_set example_prop example_uid 0 5 = Inl NullCall) \<and>
           (\<forall>st. setter example_prop = Some st \<longrightarrow>
              Property_set example_prop example_uid 0 5 =
                Inr (st (module example_uid) (entity example_uid) 0 5))"
    by (rule isReadonly_iff_no_setter)
  have st: "setter example_prop = Some (call_Setter (Setter2 example_set))"
    by (simp add: example_prop_def builder_prop_def)
  have rw: "\<not> isReadonly example_prop"
    using st by (simp add: isReadonly_def)
  from b st have "Property_set example_prop example_uid 0 5 =
      Inr (example_set (module example_uid) (entity example_uid) 5)"
    by simp
  with a rw show ?thesis by (simp add: example_readonly_def example_uid_def)
qed

section \<open>Where the builder puts functions and events\<close>

text \<open>
  C6, as stated, fails for events: with a component open, \<open>event\<close> leaves the components
  as they are and appends its wrapper to the module's events, as it does in a module
  with no component.
\<close>

theorem event_placement_counterexample:
  "cmps example_module \<noteq> [] \<and>
   cmps (builder_event example_event ''on_text'' example_module) = cmps example_module \<and>
   events (builder_event example_event ''on_text'' example_module) =
     events example_module @ [example_event] \<and>
   events (builder_event example_event ''on_text'' empty_module) =
     events empty_module @ [example_event]"
  by (simp add: builder_event_def example_module_def empty_module_def example_event_def)

text \<open>
  C6, amended. \<open>function<F>(name)\<close> registers its wrapper in the module's functions when
  the module has no component yet and in the functions of the most recently opened
  component otherwise. \<open>event<F>(name)\<close> registers its wrapper in the module's events
  always: the placement of an event does not depend on whether a component is open.
\<close>

theorem function_and_event_placement:
  "(cmps md = [] \<longrightarrow>
      builder_function F nm md = md\<lparr>module_functions := module_functions md @ [F\<lparr>fn_name := nm\<rparr>]\<rparr>) \<and>
   (cmps md \<noteq> [] \<longrightarrow>
      builder_function F nm md =
        md\<lparr>cmps := butlast (cmps md) @
              [(last (cmps md))\<lparr>cmp_functions :=
                 cmp_functions (last (cmps md)) @ [F\<lparr>fn_name := nm\<rparr>]\<rparr>]\<rparr>) \<and>
   builder_event E nm' md = md\<lparr>events := events md @ [E\<lparr>event_name := nm'\<rparr>]\<rparr>"
  by (simp add: builder_function_def builder_event_def Let_def)

theorem function_and_event_placement_witness:
  "cmps empty_module = [] \<and>
   module_functions (builder_function takes_i32 ''count'' empty_module) = [takes_i32] \<and>
   cmps example_module \<noteq> [] \<and>
   module_functions (builder_function takes_i32 ''count'' example_module) = [] \<and>
   map cmp_functions (cmps (builder_function takes_i32 ''count'' example_module)) = [[takes_i32]] \<and>
   events (builder_event example_event ''on_text'' example_module) = [example_event]"
  using function_and_event_placement
      [of empty_module takes_i32 "''count''" example_event "''on_text''"]
    function_and_event_placement
      [of example_module takes_i32 "''count''" example_event "''on_text''"]
  by (simp add: empty_module_def example_module_def takes_i32_def example_event_def example_cmp_def)

section \<open>Properties of an enum type\<close>










section \<open>Reading a property by name\<close>

lemma getPropertyValue_visit_fold:
  "fold (getPropertyValue_visit T nm cmp) ps (found, val) =
     (case rev (List.map_filter (matching T nm) ps) of
        [] \<Rightarrow> (found, val)
      | prop # _ \<Rightarrow> (True, Property_get prop cmp (- 1)))"
proof (induction ps arbitrary: found val)
  case Nil
  then show ?case by simp
next
  case (Cons p ps)
  show ?case
    by (cases p) (auto simp add: Cons.IH split: list.splits)
qed

text \<open>
  For a component type that the registry knows, \<open>getPropertyValue<T>\<close> does what C9 says:
  with no top-level \<open>Property<T>\<close> of that name it returns false and writes the default,
  otherwise it returns true and writes what the last such property's \<open>get\<close> returns for
  the index \<open>-1\<close>, which is the largest \<open>u32\<close>.
\<close>

lemma getPropertyValue_registered:
  assumes "getComponent ty = Some cmp_desc"
  shows "getPropertyValue getComponent zero T md ent ty nm =
    Inr (case rev (List.map_filter (matching T nm) (props cmp_desc)) of
           [] \<Rightarrow> (False, zero)
         | prop # _ \<Rightarrow>
             (True, Property_get prop \<lparr>module = md, entity = ent, cmp_type = ty\<rparr> (- 1)))"
  using assms
  by (simp add: getPropertyValue_def ComponentBase_visit_def getPropertyValue_visit_fold Let_def)

lemma u32_minus_one: "(- 1 :: u32) = 4294967295"
  by simp

text \<open>
  C9 fails on a component type that the registry does not know. The claim has
  \<open>getPropertyValue<T>\<close> return false there and write the default of \<open>T\<close>; the code calls
  \<open>visit\<close> on the null pointer that \<open>getComponent\<close> returned.
\<close>

theorem getPropertyValue_unregistered:
  "example_getComponent 2 = None \<and>
   getPropertyValue example_getComponent 0 P_int example_world 7 2 ''value'' = Inl NullDeref"
  by (simp add: example_getComponent_def getPropertyValue_def)

end
